theory Spec2Isabelle
  imports Main "HOL-Library.Word" "HOL-Library.Sublist"
begin

section \<open>Strings of the front-end\<close>

text \<open>
  A TypeScript string is a sequence of UTF-16 code units, and \<open>length\<close>, \<open>substring\<close>,
  \<open>split\<close>, \<open>includes\<close> and \<open>trim\<close> all count and compare code units. The model is a list
  of 16-bit words. \<open>js\<close> writes a Basic Latin literal of the source; the Chinese literals
  of the source are written out as their code units.
\<close>

type_synonym code_unit = "16 word"

type_synonym jsstring = "code_unit list"

definition js :: "string \<Rightarrow> jsstring" where
  "js s = map of_char s"

text \<open>
  \<open>String.prototype.substring(start, end)\<close>: both indices are clamped to
  \<open>[0, length]\<close> and swapped when \<open>start > end\<close>; with one argument \<open>end\<close> is the length.
\<close>

definition substring :: "jsstring \<Rightarrow> int \<Rightarrow> int \<Rightarrow> jsstring" where
  "substring s start end =
     (let len = int (length s);
          finalStart = min (max start 0) len;
          finalEnd = min (max end 0) len;
          from = min finalStart finalEnd;
          to = max finalStart finalEnd
      in take (nat (to - from)) (drop (nat from) s))"

definition substring_from :: "jsstring \<Rightarrow> int \<Rightarrow> jsstring" where
  "substring_from s start = substring s start (int (length s))"

text \<open>
  \<open>String.prototype.trim\<close> strips WhiteSpace and LineTerminator code units from both
  ends: TAB, LF, VT, FF, CR, SPACE, NBSP, U+1680, U+2000 to U+200A, U+2028, U+2029,
  U+202F, U+205F, U+3000 and U+FEFF.
\<close>

definition isWhiteSpace :: "code_unit \<Rightarrow> bool" where
  "isWhiteSpace c =
     (c = 0x0009 \<or> c = 0x000A \<or> c = 0x000B \<or> c = 0x000C \<or> c = 0x000D \<or> c = 0x0020 \<or>
      c = 0x00A0 \<or> c = 0x1680 \<or> (0x2000 \<le> c \<and> c \<le> 0x200A) \<or> c = 0x2028 \<or>
      c = 0x2029 \<or> c = 0x202F \<or> c = 0x205F \<or> c = 0x3000 \<or> c = 0xFEFF)"

definition trim :: "jsstring \<Rightarrow> jsstring" where
  "trim s = rev (dropWhile isWhiteSpace (rev (dropWhile isWhiteSpace s)))"

text \<open>
  The lowering of \<open>isExcelFile\<close>: the Basic Latin letters \<open>A\<close> to \<open>Z\<close> are lowered and
  every other code unit is kept. \<open>isExcelFile\<close> only cuts the lowered name at its dots
  and compares the last piece with \<open>xlsx\<close> and \<open>xls\<close>; the Unicode mapping lowers
  nothing but \<open>X\<close>, \<open>L\<close> and \<open>S\<close> to \<open>x\<close>, \<open>l\<close> and \<open>s\<close> and nothing to or from a dot, so
  this lowering decides as \<open>String.prototype.toLowerCase\<close> does. It is used nowhere
  else: \<open>searchInMatches\<close>, where the whole mapping matters, takes the lowering of the
  runtime as a parameter.
\<close>

definition toLowerCaseUnit :: "code_unit \<Rightarrow> code_unit" where
  "toLowerCaseUnit c = (if 0x0041 \<le> c \<and> c \<le> 0x005A then c + 0x0020 else c)"

definition toLowerCase :: "jsstring \<Rightarrow> jsstring" where
  "toLowerCase s = map toLowerCaseUnit s"

text \<open>
  \<open>s.split(sep)\<close> for a separator of one code unit: the pieces between the separators,
  in order, empty pieces included; never an empty array (\<open>"".split(".")\<close> is \<open>[""]\<close>).
  \<open>Array.prototype.pop\<close> yields the last element, \<open>undefined\<close> (\<open>None\<close>) on an empty
  array.
\<close>

fun split :: "jsstring \<Rightarrow> code_unit \<Rightarrow> jsstring list" where
  "split [] sep = [[]]"
| "split (c # cs) sep =
     (if c = sep then [] # split cs sep
      else (case split cs sep of
              [] \<Rightarrow> [[c]]
            | piece # pieces \<Rightarrow> (c # piece) # pieces))"

fun pop :: "'a list \<Rightarrow> 'a option" where
  "pop [] = None"
| "pop [x] = Some x"
| "pop (x # y # ys) = pop (y # ys)"

text \<open>\<open>s.includes(t)\<close>, here \<open>js_includes s t\<close>: \<open>t\<close> occurs in \<open>s\<close> as a contiguous run
  of code units.\<close>

fun startsWith :: "jsstring \<Rightarrow> jsstring \<Rightarrow> bool" where
  "startsWith s [] = True"
| "startsWith [] (d # t) = False"
| "startsWith (c # s) (d # t) = (c = d \<and> startsWith s t)"

fun js_includes :: "jsstring \<Rightarrow> jsstring \<Rightarrow> bool" where
  "js_includes [] t = (t = [])"
| "js_includes (c # s) t = (startsWith (c # s) t \<or> js_includes s t)"

text \<open>\<open>x || d\<close> on a \<open>string | null\<close>: \<open>null\<close> and the empty string are falsy.\<close>

definition or_string :: "jsstring option \<Rightarrow> jsstring \<Rightarrow> jsstring" where
  "or_string x d = (case x of None \<Rightarrow> d | Some s \<Rightarrow> if s = [] then d else s)"

text \<open>\<open>x || d\<close> on an \<open>object | null\<close>: every object and every array is truthy.\<close>

definition or_object :: "'a option \<Rightarrow> 'a \<Rightarrow> 'a" where
  "or_object x d = (case x of None \<Rightarrow> d | Some v \<Rightarrow> v)"


section \<open>Data model (upload.ts, student-search.ts)\<close>

text \<open>
  The ten difficulty types of the union type \<open>DifficultyType\<close>, in the order of the
  source, and the string each one is.
\<close>

datatype DifficultyType =
    OutOfPovertyWithPolicy
  | OutOfPovertyWithoutPolicy
  | CertifiedDisabled
  | RuralSubsistence
  | UrbanSubsistence
  | UrbanRuralDestitute
  | MonitoredRiskPresent
  | MonitoredRiskCleared
  | OrphanOrUnsupportedChild
  | LowIncome

fun difficulty_type_value :: "DifficultyType \<Rightarrow> jsstring" where
  "difficulty_type_value OutOfPovertyWithPolicy =
     [0x8131, 0x8D2B, 0x6237, 0x0028, 0x7EE7, 0x7EED, 0x4EAB, 0x53D7, 0x653F, 0x7B56, 0x0029]"
| "difficulty_type_value OutOfPovertyWithoutPolicy =
     [0x8131, 0x8D2B, 0x6237, 0x0028, 0x4E0D, 0x4EAB, 0x53D7, 0x653F, 0x7B56, 0x0029]"
| "difficulty_type_value CertifiedDisabled = [0x6301, 0x8BC1, 0x6B8B, 0x75BE, 0x4EBA]"
| "difficulty_type_value RuralSubsistence = [0x519C, 0x6751, 0x4F4E, 0x4FDD]"
| "difficulty_type_value UrbanSubsistence = [0x57CE, 0x9547, 0x4F4E, 0x4FDD]"
| "difficulty_type_value UrbanRuralDestitute = [0x57CE, 0x4E61, 0x7279, 0x56F0]"
| "difficulty_type_value MonitoredRiskPresent =
     [0x9632, 0x8FD4, 0x8D2B, 0x76D1, 0x6D4B, 0x5BF9, 0x8C61, 0x0028, 0x98CE, 0x9669, 0x672A,
      0x6D88, 0x9664, 0x0029]"
| "difficulty_type_value MonitoredRiskCleared =
     [0x9632, 0x8FD4, 0x8D2B, 0x76D1, 0x6D4B, 0x5BF9, 0x8C61, 0x0028, 0x98CE, 0x9669, 0x5DF2,
      0x6D88, 0x9664, 0x0029]"
| "difficulty_type_value OrphanOrUnsupportedChild =
     [0x5B64, 0x513F, 0x53CA, 0x4E8B, 0x5B9E, 0x65E0, 0x4EBA, 0x629A, 0x517B, 0x513F, 0x7AE5]"
| "difficulty_type_value LowIncome = [0x4F4E, 0x6536, 0x5165, 0x4EBA, 0x53E3]"

text \<open>
  The interfaces. An optional field (\<open>student_id?: string\<close>) is an \<open>option\<close>, and so is a
  field that may be \<open>null\<close>. The field \<open>class\<close> is written \<open>class'\<close>. Field names shared by
  several interfaces are written with the interface's name where they are used
  (\<open>CommandResult.error\<close>, \<open>SearchResult.error\<close>, \<open>DifficultStudent.difficulty_type\<close>).

  The front-end holds the difficulty record of a match as a \<open>DifficultStudent\<close>, whose
  \<open>difficulty_type\<close> is a \<open>string\<close> (upload.ts); its \<open>extra_info\<close>, a
  \<open>Record<string, string>\<close> that no function here reads, is kept as the list of its
  entries. The record of the engine is a \<open>DifficultPerson\<close>, whose \<open>difficulty_type\<close> is
  one of the ten \<open>DifficultyType\<close>. A \<open>MatchResult\<close> pairs a student with either.
\<close>

record DifficultStudent =
  name :: jsstring
  id_number :: jsstring
  difficulty_type :: jsstring
  source_file :: jsstring
  extra_info :: "(jsstring \<times> jsstring) list"

record Student =
  name :: jsstring
  id_number :: jsstring
  student_id :: "jsstring option"
  class' :: "jsstring option"
  grade :: "jsstring option"
  school :: "jsstring option"

record DifficultPerson =
  id_number :: jsstring
  difficulty_type :: DifficultyType

record 'd MatchResult =
  student :: Student
  difficult_info :: 'd

record 'a CommandResult =
  success :: bool
  data :: "'a option"
  error :: "jsstring option"

text \<open>
  The statistics that the backend answers with; the front-end passes them on and never
  looks into the counts, which are kept as the list of their entries.
\<close>

record MatchStatistics =
  total_students :: nat
  total_matches :: nat
  difficulty_type_counts :: "(DifficultyType \<times> nat) list"


section \<open>Plain objects used as tables\<close>












text \<open>An exception that a function raises to its caller.\<close>

datatype js_error = TypeError


record SearchResult =
  matches :: "DifficultStudent MatchResult list"
  statistics :: MatchStatistics
  success :: bool
  error :: "jsstring option"

record ValidationResult =
  valid :: bool
  error :: "jsstring option"


section \<open>upload.ts\<close>

definition isExcelFile :: "jsstring \<Rightarrow> bool" where
  "isExcelFile fileName =
     (let extension = pop (split (toLowerCase fileName) 0x002E)
      in extension = Some (js ''xlsx'') \<or> extension = Some (js ''xls''))"



definition maskIdNumber :: "jsstring \<Rightarrow> jsstring" where
  "maskIdNumber idNumber =
     (if length idNumber \<ge> 6
      then substring idNumber 0 3 @ js ''****'' @
           substring_from idNumber (int (length idNumber) - 3)
      else js ''****'')"

section \<open>student-search.ts\<close>

text \<open>
  \<open>invoke\<close> hands a command to the backend process and returns a promise, which is
  either resolved with a \<open>CommandResult\<close> or rejected with some value. Of a rejected
  value the \<open>catch\<close> block takes the text that its template literal renders; a value
  with no conversion to a string (a symbol, an object without a usable \<open>toString\<close> and
  \<open>valueOf\<close>) has none, and rendering it raises a \<open>TypeError\<close>. The backend is a
  parameter of the model: what each of the two commands answers for the three
  arguments, and, should both be rejected, which rejection comes first.
\<close>

datatype rejection = Renders jsstring | Unrenderable

datatype 'a outcome = Resolved 'a | Rejected rejection

record Backend =
  find_students_by_difficulty ::
    "jsstring \<Rightarrow> jsstring \<Rightarrow> jsstring \<Rightarrow> DifficultStudent MatchResult list CommandResult outcome"
  get_students_match_statistics ::
    "jsstring \<Rightarrow> jsstring \<Rightarrow> jsstring \<Rightarrow> MatchStatistics CommandResult outcome"
  statistics_rejected_first :: bool

definition findStudentsByDifficulty ::
  "Backend \<Rightarrow> jsstring \<Rightarrow> jsstring \<Rightarrow> jsstring \<Rightarrow>
   DifficultStudent MatchResult list CommandResult outcome" where
  "findStudentsByDifficulty backend studentFilePath difficultyFilePath difficultyType =
     find_students_by_difficulty backend studentFilePath difficultyFilePath difficultyType"

definition getStudentsMatchStatistics ::
  "Backend \<Rightarrow> jsstring \<Rightarrow> jsstring \<Rightarrow> jsstring \<Rightarrow> MatchStatistics CommandResult outcome" where
  "getStudentsMatchStatistics backend studentFilePath difficultyFilePath difficultyType =
     get_students_match_statistics backend studentFilePath difficultyFilePath difficultyType"

text \<open>
  \<open>await Promise.all([p, q])\<close>: both values once both promises are resolved, and the
  first rejection as soon as one of them is rejected.
\<close>

definition promise_all :: "bool \<Rightarrow> 'a outcome \<Rightarrow> 'b outcome \<Rightarrow> ('a \<times> 'b) outcome" where
  "promise_all second_first p q =
     (case p of
        Resolved a \<Rightarrow> (case q of Resolved b \<Rightarrow> Resolved (a, b) | Rejected e \<Rightarrow> Rejected e)
      | Rejected e \<Rightarrow>
          (case q of
             Resolved b \<Rightarrow> Rejected e
           | Rejected e' \<Rightarrow> Rejected (if second_first then e' else e)))"

text \<open>The statistics literal that the source writes out four times.\<close>

definition zero_statistics :: MatchStatistics where
  "zero_statistics = \<lparr>total_students = 0, total_matches = 0, difficulty_type_counts = []\<rparr>"

text \<open>The three message literals of \<open>executeStudentSearch\<close>, as code units.\<close>

definition msg_find_failed :: jsstring where
  "msg_find_failed = [0x67E5, 0x627E, 0x5B66, 0x751F, 0x5931, 0x8D25]"

definition msg_statistics_failed :: jsstring where
  "msg_statistics_failed = [0x83B7, 0x53D6, 0x7EDF, 0x8BA1, 0x4FE1, 0x606F, 0x5931, 0x8D25]"

definition msg_search_error_prefix :: jsstring where
  "msg_search_error_prefix =
     [0x6267, 0x884C, 0x67E5, 0x627E, 0x65F6, 0x53D1, 0x751F, 0x9519, 0x8BEF, 0x003A, 0x0020]"

text \<open>
  \<open>executeStudentSearch\<close>. Its promise is resolved with a result (\<open>Inr\<close>) or rejected with
  the exception that its body lets through (\<open>Inl\<close>). The \<open>try\<close> block raises what
  \<open>Promise.all\<close> is rejected with; the \<open>catch\<close> block builds its message with
  \<open>${error}\<close>, outside any \<open>try\<close>, so that a rejected value with no text raises there.
\<close>

definition executeStudentSearch ::
  "Backend \<Rightarrow> jsstring \<Rightarrow> jsstring \<Rightarrow> jsstring \<Rightarrow> js_error + SearchResult" where
  "executeStudentSearch backend studentFilePath difficultyFilePath difficultyType =
     (case promise_all (statistics_rejected_first backend)
             (findStudentsByDifficulty backend studentFilePath difficultyFilePath difficultyType)
             (getStudentsMatchStatistics backend studentFilePath difficultyFilePath difficultyType)
      of
        Resolved (matchResult, statsResult) \<Rightarrow>
          if \<not> CommandResult.success matchResult then
            Inr \<lparr>matches = [],
                 statistics = zero_statistics,
                 success = False,
                 SearchResult.error =
                   Some (or_string (CommandResult.error matchResult) msg_find_failed)\<rparr>
          else if \<not> CommandResult.success statsResult then
            Inr \<lparr>matches = or_object (data matchResult) [],
                 statistics = zero_statistics,
                 success = False,
                 SearchResult.error =
                   Some (or_string (CommandResult.error statsResult) msg_statistics_failed)\<rparr>
          else
            Inr \<lparr>matches = or_object (data matchResult) [],
                 statistics = or_object (data statsResult) zero_statistics,
                 success = True,
                 SearchResult.error = None\<rparr>
      | Rejected err \<Rightarrow>
          (case err of
             Renders text \<Rightarrow>
               Inr \<lparr>matches = [],
                    statistics = zero_statistics,
                    success = False,
                    SearchResult.error = Some (msg_search_error_prefix @ text)\<rparr>
           | Unrenderable \<Rightarrow> Inl TypeError))"




text \<open>
  \<open>searchInMatches\<close>. \<open>String.prototype.toLowerCase\<close> follows the case mapping of the
  Unicode tables of the runtime, which are no part of the repository: the lowering is
  the parameter \<open>lower\<close>, and what is proved holds for every lowering. In the predicate
  of the \<open>filter\<close>, \<open>x && e\<close> is falsy for an absent and for an empty \<open>x\<close>.
\<close>

definition match_has_term ::
  "(jsstring \<Rightarrow> jsstring) \<Rightarrow> jsstring \<Rightarrow> 'd MatchResult \<Rightarrow> bool" where
  "match_has_term lower term m =
     (js_includes (lower (Student.name (student m))) term \<or>
      js_includes (Student.id_number (student m)) term \<or>
      (case student_id (student m) of
         None \<Rightarrow> False
       | Some sid \<Rightarrow> sid \<noteq> [] \<and> js_includes (lower sid) term) \<or>
      (case class' (student m) of
         None \<Rightarrow> False
       | Some cls \<Rightarrow> cls \<noteq> [] \<and> js_includes (lower cls) term))"

definition searchInMatches ::
  "(jsstring \<Rightarrow> jsstring) \<Rightarrow> 'd MatchResult list \<Rightarrow> jsstring \<Rightarrow> 'd MatchResult list" where
  "searchInMatches lower matchList searchTerm =
     (if trim searchTerm = [] then matchList
      else let term = trim (lower searchTerm)
           in filter (match_has_term lower term) matchList)"

text \<open>The three message literals of \<open>validateSearchParameters\<close>, as code units.\<close>

definition msg_select_student_file :: jsstring where
  "msg_select_student_file =
     [0x8BF7, 0x9009, 0x62E9, 0x5B66, 0x751F, 0x4FE1, 0x606F, 0x8868, 0x6587, 0x4EF6]"

definition msg_select_difficulty_file :: jsstring where
  "msg_select_difficulty_file =
     [0x8BF7, 0x9009, 0x62E9, 0x56F0, 0x96BE, 0x7C7B, 0x578B, 0x6570, 0x636E, 0x8868, 0x6587,
      0x4EF6]"

definition msg_select_difficulty_type :: jsstring where
  "msg_select_difficulty_type = [0x8BF7, 0x9009, 0x62E9, 0x56F0, 0x96BE, 0x7C7B, 0x578B]"

definition validateSearchParameters :: "jsstring \<Rightarrow> jsstring \<Rightarrow> jsstring \<Rightarrow> ValidationResult" where
  "validateSearchParameters studentFilePath difficultyFilePath difficultyType =
     (if trim studentFilePath = [] then
        \<lparr>valid = False, ValidationResult.error = Some msg_select_student_file\<rparr>
      else if trim difficultyFilePath = [] then
        \<lparr>valid = False, ValidationResult.error = Some msg_select_difficulty_file\<rparr>
      else if trim difficultyType = [] then
        \<lparr>valid = False, ValidationResult.error = Some msg_select_difficulty_type\<rparr>
      else \<lparr>valid = True, ValidationResult.error = None\<rparr>)"


section \<open>The matching engine\<close>

text \<open>
  The front-end only calls the engine (\<open>find_students_by_difficulty\<close> of the backend
  process); the engine's code is not among the sources. The definitions of this
  section follow the specification's description of it.
\<close>

text \<open>Modelled from the spec: the fixed enumeration of categories that a category
  must be one of; its members are the \<open>DifficultyType\<close> of upload.ts.\<close>

definition difficulty_types :: "DifficultyType list" where
  "difficulty_types =
     [OutOfPovertyWithPolicy, OutOfPovertyWithoutPolicy, CertifiedDisabled, RuralSubsistence,
      UrbanSubsistence, UrbanRuralDestitute, MonitoredRiskPresent, MonitoredRiskCleared,
      OrphanOrUnsupportedChild, LowIncome]"

definition is_difficulty_type :: "jsstring \<Rightarrow> bool" where
  "is_difficulty_type category = (category \<in> set (map difficulty_type_value difficulty_types))"

text \<open>Modelled from the spec: the lookup of \<open>find_matches\<close>, missing from the sources,
  "keyed by identity_number \<rightarrow> Student from the student table (last-write-wins if
  duplicate identity numbers)".\<close>

definition student_lookup :: "Student list \<Rightarrow> jsstring \<Rightarrow> Student option" where
  "student_lookup students =
     foldl (\<lambda>lookup s. lookup(Student.id_number s \<mapsto> s)) Map.empty students"

text \<open>Modelled from the spec: \<open>find_matches(students, difficulty_records, category)\<close>,
  missing from the sources: "filter difficulty_records to those with difficulty_type ==
  category; build a lookup ...; for each filtered difficulty record, look up the
  matching student; if found, emit a MatchResult; unmatched difficulty records are
  silently dropped".\<close>

definition find_matches ::
  "Student list \<Rightarrow> DifficultPerson list \<Rightarrow> jsstring \<Rightarrow> DifficultPerson MatchResult list" where
  "find_matches students difficulty_records category =
     (let filtered = filter (\<lambda>d. difficulty_type_value (difficulty_type d) = category)
                       difficulty_records;
          lookup = student_lookup students
      in List.map_filter
           (\<lambda>d. case lookup (DifficultPerson.id_number d) of
                   None \<Rightarrow> None
                 | Some s \<Rightarrow> Some \<lparr>student = s, difficult_info = d\<rparr>)
           filtered)"

text \<open>Modelled from the spec: the boundary operation \<open>find_matches(student_path,
  difficulty_path, category) \<rightarrow> matches | error\<close>, missing from the sources. Reading a
  table either fails with a message (\<open>Inl\<close>: "malformed or unreadable input tables produce
  a reported error") or yields its rows; the answer is the tagged result the front-end
  receives.\<close>

definition find_matches_command ::
  "jsstring + Student list \<Rightarrow> jsstring + DifficultPerson list \<Rightarrow> jsstring \<Rightarrow>
   DifficultPerson MatchResult list CommandResult" where
  "find_matches_command student_table difficulty_table category =
     (case student_table of
        Inl msg \<Rightarrow> \<lparr>CommandResult.success = False, data = None, CommandResult.error = Some msg\<rparr>
      | Inr students \<Rightarrow>
          (case difficulty_table of
             Inl msg \<Rightarrow>
               \<lparr>CommandResult.success = False, data = None, CommandResult.error = Some msg\<rparr>
           | Inr difficulty_records \<Rightarrow>
               \<lparr>CommandResult.success = True,
                data = Some (find_matches students difficulty_records category),
                CommandResult.error = None\<rparr>))"


section \<open>Notions of the specification\<close>

text \<open>A string that is "empty or whitespace-only".\<close>

definition whitespace_only :: "jsstring \<Rightarrow> bool" where
  "whitespace_only s = list_all isWhiteSpace s"

text \<open>"The substring after the last dot": the whole string when it has no dot.\<close>

definition after_last_dot :: "jsstring \<Rightarrow> jsstring" where
  "after_last_dot s = rev (takeWhile (\<lambda>c. c \<noteq> 0x002E) (rev s))"

text \<open>The difficulty type of a match of the engine.\<close>

abbreviation type_of :: "DifficultPerson MatchResult \<Rightarrow> DifficultyType" where
  "type_of m \<equiv> difficulty_type (difficult_info m)"





text \<open>
  A match result "matches the term": the term is a substring of the student's name in
  lower case, of the identity number as it is, or of the student id or the class in
  lower case when the student has one.
\<close>

definition matches_term ::
  "(jsstring \<Rightarrow> jsstring) \<Rightarrow> jsstring \<Rightarrow> 'd MatchResult \<Rightarrow> bool" where
  "matches_term lower term m =
     (sublist term (lower (Student.name (student m))) \<or>
      sublist term (Student.id_number (student m)) \<or>
      (case student_id (student m) of
         None \<Rightarrow> False
       | Some sid \<Rightarrow> sublist term (lower sid)) \<or>
      (case class' (student m) of
         None \<Rightarrow> False
       | Some cls \<Rightarrow> sublist term (lower cls)))"


section \<open>Example data\<close>

text \<open>
  The student and the difficulty record of the specification's example (\<open>A\<close>, identity
  number \<open>123456789012345678\<close>, rural subsistence allowance), and a second pair.
\<close>

definition example_student :: Student where
  "example_student =
     \<lparr>name = js ''A'', Student.id_number = js ''123456789012345678'', student_id = None,
      class' = None, grade = None, school = None\<rparr>"

definition example_record :: DifficultPerson where
  "example_record =
     \<lparr>DifficultPerson.id_number = js ''123456789012345678'',
      difficulty_type = RuralSubsistence\<rparr>"

definition example_match :: "DifficultPerson MatchResult" where
  "example_match = \<lparr>student = example_student, difficult_info = example_record\<rparr>"

definition other_student :: Student where
  "other_student =
     \<lparr>name = js ''Bo'', Student.id_number = js ''987654321098765432'',
      student_id = Some (js ''S-02''), class' = Some (js ''Class 3''), grade = None,
      school = None\<rparr>"

definition other_record :: DifficultPerson where
  "other_record =
     \<lparr>DifficultPerson.id_number = js ''987654321098765432'',
      difficulty_type = UrbanSubsistence\<rparr>"

text \<open>
  The same two matches as the front-end receives them, with the difficulty type as its
  string, and a list of three results.
\<close>

definition info_of :: "jsstring \<Rightarrow> jsstring \<Rightarrow> jsstring \<Rightarrow> DifficultStudent" where
  "info_of person_name number ty =
     \<lparr>DifficultStudent.name = person_name, DifficultStudent.id_number = number,
      DifficultStudent.difficulty_type = ty, source_file = js ''difficulty.xlsx'',
      extra_info = []\<rparr>"

definition example_result :: "DifficultStudent MatchResult" where
  "example_result =
     \<lparr>student = example_student,
      difficult_info = info_of (js ''A'') (js ''123456789012345678'')
                         (difficulty_type_value RuralSubsistence)\<rparr>"

definition other_result :: "DifficultStudent MatchResult" where
  "other_result =
     \<lparr>student = other_student,
      difficult_info = info_of (js ''Bo'') (js ''987654321098765432'')
                         (difficulty_type_value UrbanSubsistence)\<rparr>"




text \<open>
  A student whose class is written with the fullwidth letter \<open>A\<close> (U+FF21) before U+73ED,
  and a lowering that lowers the Basic Latin and the fullwidth capital letters, as the
  Unicode mapping does, and keeps every other code unit.
\<close>

definition fullwidth_student :: Student where
  "fullwidth_student =
     \<lparr>name = [0x738B], Student.id_number = js ''110101200001011234'', student_id = None,
      class' = Some [0xFF21, 0x73ED], grade = None, school = None\<rparr>"

definition fullwidth_result :: "DifficultStudent MatchResult" where
  "fullwidth_result =
     \<lparr>student = fullwidth_student,
      difficult_info = info_of [0x738B] (js ''110101200001011234'')
                         (difficulty_type_value LowIncome)\<rparr>"

definition lower_latin_unit :: "code_unit \<Rightarrow> code_unit" where
  "lower_latin_unit c =
     (if (0x0041 \<le> c \<and> c \<le> 0x005A) \<or> (0xFF21 \<le> c \<and> c \<le> 0xFF3A) then c + 0x0020 else c)"

definition lower_latin :: "jsstring \<Rightarrow> jsstring" where
  "lower_latin s = map lower_latin_unit s"

text \<open>The list that the search examples run on.\<close>

definition search_examples :: "DifficultStudent MatchResult list" where
  "search_examples = [example_result, other_result, fullwidth_result]"

text \<open>
  The statistics of the specification's example, and four backends: one whose match
  command reports a failure while its statistics command succeeds, one whose statistics
  command reports a failure with no message while its match command succeeds, one
  whose statistics command is rejected with a value that renders as \<open>panic\<close>, and one
  whose statistics command is rejected with a value that has no text.
\<close>

definition example_statistics :: MatchStatistics where
  "example_statistics =
     \<lparr>total_students = 1, total_matches = 1,
      difficulty_type_counts = [(RuralSubsistence, 1)]\<rparr>"

definition failing_find_backend :: Backend where
  "failing_find_backend =
     \<lparr>find_students_by_difficulty =
        (\<lambda>studentFilePath difficultyFilePath difficultyType.
           Resolved \<lparr>CommandResult.success = False, data = None,
                     CommandResult.error = Some (js ''unreadable'')\<rparr>),
      get_students_match_statistics =
        (\<lambda>studentFilePath difficultyFilePath difficultyType.
           Resolved \<lparr>CommandResult.success = True, data = Some example_statistics,
                     CommandResult.error = None\<rparr>),
      statistics_rejected_first = False\<rparr>"

definition failing_statistics_backend :: Backend where
  "failing_statistics_backend =
     \<lparr>find_students_by_difficulty =
        (\<lambda>studentFilePath difficultyFilePath difficultyType.
           Resolved \<lparr>CommandResult.success = True, data = Some [example_result],
                     CommandResult.error = None\<rparr>),
      get_students_match_statistics =
        (\<lambda>studentFilePath difficultyFilePath difficultyType.
           Resolved \<lparr>CommandResult.success = False, data = None,
                     CommandResult.error = None\<rparr>),
      statistics_rejected_first = False\<rparr>"

definition rejecting_backend :: Backend where
  "rejecting_backend =
     \<lparr>find_students_by_difficulty =
        (\<lambda>studentFilePath difficultyFilePath difficultyType.
           Resolved \<lparr>CommandResult.success = True, data = Some [example_result],
                     CommandResult.error = None\<rparr>),
      get_students_match_statistics =
        (\<lambda>studentFilePath difficultyFilePath difficultyType.
           Rejected (Renders (js ''panic''))),
      statistics_rejected_first = False\<rparr>"

definition unrenderable_backend :: Backend where
  "unrenderable_backend =
     \<lparr>find_students_by_difficulty =
        (\<lambda>studentFilePath difficultyFilePath difficultyType.
           Resolved \<lparr>CommandResult.success = True, data = Some [example_result],
                     CommandResult.error = None\<rparr>),
      get_students_match_statistics =
        (\<lambda>studentFilePath difficultyFilePath difficultyType. Rejected Unrenderable),
      statistics_rejected_first = False\<rparr>"


section \<open>Masking of identity numbers\<close>

lemma substring_take: "0 \<le> n \<Longrightarrow> substring s 0 n = take (nat n) s"
  by (simp add: substring_def Let_def min_def max_def)

lemma substring_from_drop:
  "0 \<le> k \<Longrightarrow> k \<le> int (length s) \<Longrightarrow> substring_from s k = drop (nat k) s"
  by (auto simp add: substring_from_def substring_def Let_def min_def max_def)

lemma maskIdNumber_long:
  assumes "6 \<le> length s"
  shows "maskIdNumber s = take 3 s @ js ''****'' @ drop (length s - 3) s"
proof -
  have "nat (int (length s) - 3) = length s - 3" by simp
  moreover have "substring_from s (int (length s) - 3) = drop (nat (int (length s) - 3)) s"
    using assms by (intro substring_from_drop) auto
  moreover have "substring s 0 3 = take 3 s"
    using substring_take [of 3 s] by simp
  ultimately show ?thesis using assms by (simp add: maskIdNumber_def)
qed

lemma js_stars: "js ''****'' = [0x2A, 0x2A, 0x2A, 0x2A]"
  by (simp add: js_def)

text \<open>
  Claim C1. For an identity number of at least six code units, \<open>maskIdNumber\<close> returns
  its first three code units, the mask \<open>****\<close> and its last three code units (ten code
  units in all, whatever the length of the input); for a shorter one it returns the
  placeholder \<open>****\<close>; and \<open>123456789012345678\<close> masks to \<open>123****678\<close>. The function
  is a pure function of its argument: it builds a new string and the argument, an
  immutable value, is the same before and after.
\<close>

theorem maskIdNumber_spec:
  "(6 \<le> length s \<longrightarrow>
      maskIdNumber s = take 3 s @ js ''****'' @ drop (length s - 3) s \<and>
      length (maskIdNumber s) = 10 \<and>
      take 3 (maskIdNumber s) = take 3 s \<and>
      drop 7 (maskIdNumber s) = drop (length s - 3) s) \<and>
   (length s < 6 \<longrightarrow> maskIdNumber s = js ''****'') \<and>
   maskIdNumber (js ''123456789012345678'') = js ''123****678''"
proof (intro conjI impI)
  assume long: "6 \<le> length s"
  show eq: "maskIdNumber s = take 3 s @ js ''****'' @ drop (length s - 3) s"
    by (rule maskIdNumber_long [OF long])
  show "length (maskIdNumber s) = 10"
    using long by (simp add: eq js_stars)
  show "take 3 (maskIdNumber s) = take 3 s"
    using long by (simp add: eq)
  show "drop 7 (maskIdNumber s) = drop (length s - 3) s"
    using long by (simp add: eq js_stars)
next
  assume "length s < 6"
  then show "maskIdNumber s = js ''****''"
    by (simp add: maskIdNumber_def)
next
  have len: "length (js ''123456789012345678'') = 18" by (simp add: js_def)
  have "6 \<le> length (js ''123456789012345678'')" by (simp add: len)
  from maskIdNumber_long [OF this]
  show "maskIdNumber (js ''123456789012345678'') = js ''123****678''"
    by (simp add: len) (simp add: js_def)
qed

theorem maskIdNumber_spec_witness:
  "6 \<le> length (js ''1234567'') \<and>
   maskIdNumber (js ''1234567'') = js ''123****567'' \<and>
   length (js ''12345'') < 6 \<and>
   maskIdNumber (js ''12345'') = js ''****''"
  using maskIdNumber_spec [of "js ''1234567''"] maskIdNumber_spec [of "js ''12345''"]
  by (simp add: js_def)


section \<open>Validation of the search parameters\<close>

lemma dropWhile_Nil_all: "(dropWhile P xs = []) = list_all P xs"
  by (simp add: dropWhile_eq_Nil_conv list_all_iff)

lemma trim_empty_iff: "(trim s = []) = whitespace_only s"
proof
  assume "trim s = []"
  then have all_rest: "\<forall>x \<in> set (dropWhile isWhiteSpace s). isWhiteSpace x"
    by (simp add: trim_def dropWhile_eq_Nil_conv)
  have "dropWhile isWhiteSpace s = []"
  proof (rule ccontr)
    assume ne: "dropWhile isWhiteSpace s \<noteq> []"
    then have "\<not> isWhiteSpace (hd (dropWhile isWhiteSpace s))"
      by (rule hd_dropWhile)
    moreover have "hd (dropWhile isWhiteSpace s) \<in> set (dropWhile isWhiteSpace s)"
      using ne by simp
    ultimately show False using all_rest by blast
  qed
  then show "whitespace_only s"
    by (metis dropWhile_Nil_all whitespace_only_def)
next
  assume "whitespace_only s"
  then have "dropWhile isWhiteSpace s = []"
    by (metis dropWhile_Nil_all whitespace_only_def)
  then show "trim s = []"
    unfolding trim_def by (simp only: rev.simps dropWhile.simps)
qed

lemma validation_messages:
  "msg_select_student_file \<noteq> []" "msg_select_difficulty_file \<noteq> []"
  "msg_select_difficulty_type \<noteq> []"
  "msg_select_student_file \<noteq> msg_select_difficulty_file"
  "msg_select_student_file \<noteq> msg_select_difficulty_type"
  "msg_select_difficulty_file \<noteq> msg_select_difficulty_type"
  by (simp_all add: msg_select_student_file_def msg_select_difficulty_file_def
      msg_select_difficulty_type_def)

text \<open>
  Claim C6. \<open>validateSearchParameters\<close> answers \<open>valid = false\<close> with a non-empty message
  exactly when one of the student file path, the difficulty file path and the difficulty
  type is empty or whitespace-only; the message is that of the first such argument in
  this order, and the three messages differ; otherwise it answers \<open>valid = true\<close> with no
  message. The function is a pure function of its three arguments: no backend is among
  them, so the check is made without a call of the engine.
\<close>

theorem validateSearchParameters_spec:
  "(let r = validateSearchParameters a b c;
        missing = (whitespace_only a \<or> whitespace_only b \<or> whitespace_only c)
    in ((\<not> valid r \<and> (\<exists>msg. ValidationResult.error r = Some msg \<and> msg \<noteq> [])) = missing) \<and>
       (valid r = (\<not> missing)) \<and>
       (valid r \<longrightarrow> ValidationResult.error r = None) \<and>
       (whitespace_only a \<longrightarrow> ValidationResult.error r = Some msg_select_student_file) \<and>
       (\<not> whitespace_only a \<and> whitespace_only b \<longrightarrow>
          ValidationResult.error r = Some msg_select_difficulty_file) \<and>
       (\<not> whitespace_only a \<and> \<not> whitespace_only b \<and> whitespace_only c \<longrightarrow>
          ValidationResult.error r = Some msg_select_difficulty_type)) \<and>
   distinct [msg_select_student_file, msg_select_difficulty_file, msg_select_difficulty_type]"
  by (simp add: Let_def validateSearchParameters_def trim_empty_iff validation_messages)

lemma blank_examples:
  "whitespace_only (js '' '')" "whitespace_only (js '''')"
  "\<not> whitespace_only (js ''a.xlsx'')" "\<not> whitespace_only (js ''b.xls'')"
  "\<not> whitespace_only (js ''t'')"
  by (simp_all add: whitespace_only_def js_def isWhiteSpace_def)

theorem validateSearchParameters_spec_witness:
  "whitespace_only (js '' '') \<and>
   \<not> valid (validateSearchParameters (js '' '') (js ''b.xls'') (js ''t'')) \<and>
   ValidationResult.error (validateSearchParameters (js '' '') (js ''b.xls'') (js ''t''))
     = Some msg_select_student_file \<and>
   \<not> whitespace_only (js ''a.xlsx'') \<and> whitespace_only (js '''') \<and>
   ValidationResult.error (validateSearchParameters (js ''a.xlsx'') (js '''') (js ''t''))
     = Some msg_select_difficulty_file \<and>
   \<not> whitespace_only (js ''b.xls'') \<and>
   ValidationResult.error (validateSearchParameters (js ''a.xlsx'') (js ''b.xls'') (js '' ''))
     = Some msg_select_difficulty_type \<and>
   \<not> whitespace_only (js ''t'') \<and>
   valid (validateSearchParameters (js ''a.xlsx'') (js ''b.xls'') (js ''t'')) \<and>
   ValidationResult.error (validateSearchParameters (js ''a.xlsx'') (js ''b.xls'') (js ''t''))
     = None"
  using validateSearchParameters_spec [of "js '' ''" "js ''b.xls''" "js ''t''"]
    validateSearchParameters_spec [of "js ''a.xlsx''" "js ''''" "js ''t''"]
    validateSearchParameters_spec [of "js ''a.xlsx''" "js ''b.xls''" "js '' ''"]
    validateSearchParameters_spec [of "js ''a.xlsx''" "js ''b.xls''" "js ''t''"]
  by (simp add: Let_def blank_examples)

section \<open>Excel file names\<close>

lemma split_not_Nil: "split s sep \<noteq> []"
  by (induction s) (auto split: list.splits)

lemma pop_Cons: "xs \<noteq> [] \<Longrightarrow> pop (x # xs) = pop xs"
  by (cases xs) simp_all

lemma pop_last: "xs \<noteq> [] \<Longrightarrow> pop xs = Some (last xs)"
  by (induction xs rule: pop.induct) simp_all

lemma split_no_sep: "sep \<notin> set s \<Longrightarrow> split s sep = [s]"
  by (induction s) auto

lemma split_with_sep: "sep \<in> set s \<Longrightarrow> \<exists>piece other rest. split s sep = piece # other # rest"
proof (induction s)
  case Nil
  then show ?case by simp
next
  case (Cons c cs)
  show ?case
  proof (cases "c = sep")
    case True
    obtain piece pieces where "split cs sep = piece # pieces"
      using split_not_Nil [of cs sep] by (cases "split cs sep") auto
    with True show ?thesis by simp
  next
    case False
    with Cons.prems have "sep \<in> set cs" by simp
    from Cons.IH [OF this] obtain piece other rest
      where "split cs sep = piece # other # rest" by blast
    with False show ?thesis by simp
  qed
qed

lemma last_split_Cons:
  "last (split (c # cs) sep) =
     (if sep \<in> set cs then last (split cs sep) else if c = sep then cs else c # cs)"
proof (cases "sep \<in> set cs")
  case True
  from split_with_sep [OF this] obtain piece other rest
    where "split cs sep = piece # other # rest" by blast
  with True show ?thesis by simp
next
  case False
  then show ?thesis by (simp add: split_no_sep)
qed

lemma after_last_Cons:
  "rev (takeWhile (\<lambda>x. x \<noteq> sep) (rev (c # cs))) =
     (if sep \<in> set cs then rev (takeWhile (\<lambda>x. x \<noteq> sep) (rev cs))
      else if c = sep then cs else c # cs)"
proof (cases "sep \<in> set cs")
  case True
  then have "takeWhile (\<lambda>x. x \<noteq> sep) (rev cs @ [c]) = takeWhile (\<lambda>x. x \<noteq> sep) (rev cs)"
    by (intro takeWhile_append1 [where x = sep]) auto
  with True show ?thesis by simp
next
  case False
  then have all: "\<And>x. x \<in> set (rev cs) \<Longrightarrow> x \<noteq> sep" by auto
  have "takeWhile (\<lambda>x. x \<noteq> sep) (rev cs @ [c]) = rev cs @ takeWhile (\<lambda>x. x \<noteq> sep) [c]"
    by (rule takeWhile_append2) (rule all)
  with False show ?thesis by simp
qed

lemma last_split: "last (split s sep) = rev (takeWhile (\<lambda>x. x \<noteq> sep) (rev s))"
proof (induction s)
  case Nil
  show ?case by simp
next
  case (Cons c cs)
  show ?case
    unfolding last_split_Cons after_last_Cons using Cons.IH by simp
qed

lemma pop_split: "pop (split s 0x002E) = Some (after_last_dot s)"
  by (simp add: pop_last split_not_Nil last_split after_last_dot_def)

lemma toLowerCaseUnit_dot: "(toLowerCaseUnit c = 0x002E) = (c = 0x002E)"
proof (cases "0x0041 \<le> c \<and> c \<le> 0x005A")
  case True
  then have "c \<noteq> 0x000E" "c \<noteq> 0x002E" by auto
  then show ?thesis using True by (simp add: toLowerCaseUnit_def)
next
  case False
  then show ?thesis by (auto simp: toLowerCaseUnit_def)
qed

lemma after_last_dot_toLowerCase:
  "after_last_dot (toLowerCase s) = toLowerCase (after_last_dot s)"
proof -
  have "takeWhile (\<lambda>c. c \<noteq> 0x002E) (map toLowerCaseUnit (rev s)) =
        map toLowerCaseUnit (takeWhile (\<lambda>c. c \<noteq> 0x002E) (rev s))"
    by (simp add: takeWhile_map comp_def toLowerCaseUnit_dot)
  then show ?thesis
    by (simp add: after_last_dot_def toLowerCase_def rev_map)
qed

lemma after_last_dot_no_dot:
  assumes "0x002E \<notin> set s"
  shows "after_last_dot s = s"
proof -
  have "takeWhile (\<lambda>c. c \<noteq> 0x002E) (rev s) = rev s"
    by (rule takeWhile_eq_all_conv [THEN iffD2]) (use assms in auto)
  then show ?thesis by (simp only: after_last_dot_def rev_rev_ident)
qed

text \<open>
  Claim C8. \<open>isExcelFile\<close> is true exactly when the part of the file name after its last
  dot, in lower case, is \<open>xlsx\<close> or \<open>xls\<close>. A name with no dot is its own extension, so it
  is accepted exactly when the whole name in lower case is \<open>xlsx\<close> or \<open>xls\<close>: a file
  named \<open>xls\<close> is accepted.
\<close>

theorem isExcelFile_spec:
  "isExcelFile fileName =
     (toLowerCase (after_last_dot fileName) = js ''xlsx'' \<or>
      toLowerCase (after_last_dot fileName) = js ''xls'') \<and>
   (0x002E \<notin> set fileName \<longrightarrow>
      isExcelFile fileName =
        (toLowerCase fileName = js ''xlsx'' \<or> toLowerCase fileName = js ''xls'')) \<and>
   isExcelFile (js ''xls'') \<and> isExcelFile (js ''XLSX'') \<and>
   isExcelFile (js ''roster.v2.Xls'') \<and> \<not> isExcelFile (js ''roster.xlsx.bak'')"
proof -
  have main: "\<And>f. isExcelFile f =
     (toLowerCase (after_last_dot f) = js ''xlsx'' \<or> toLowerCase (after_last_dot f) = js ''xls'')"
    by (simp add: isExcelFile_def Let_def pop_split after_last_dot_toLowerCase)
  have "isExcelFile (js ''xls'')" "isExcelFile (js ''XLSX'')"
    "isExcelFile (js ''roster.v2.Xls'')" "\<not> isExcelFile (js ''roster.xlsx.bak'')"
    by (simp_all add: main after_last_dot_def toLowerCase_def toLowerCaseUnit_def js_def)
  then show ?thesis
    using main [of fileName] by (auto simp: after_last_dot_no_dot)
qed

theorem isExcelFile_spec_witness:
  "0x002E \<notin> set (js ''Xlsx'') \<and> isExcelFile (js ''Xlsx'') \<and>
   toLowerCase (js ''Xlsx'') = js ''xlsx'' \<and>
   0x002E \<notin> set (js ''xlsm'') \<and> \<not> isExcelFile (js ''xlsm'')"
  using isExcelFile_spec [of "js ''Xlsx''"] isExcelFile_spec [of "js ''xlsm''"]
  by (simp add: js_def toLowerCase_def toLowerCaseUnit_def after_last_dot_def)


section \<open>Summary and grouping of match results\<close>






























section \<open>Search in the match results\<close>

lemma startsWith_prefix: "startsWith s t = prefix t s"
  by (induction s t rule: startsWith.induct) auto

lemma js_includes_sublist: "js_includes s t = sublist t s"
  by (induction s) (simp_all add: startsWith_prefix sublist_Cons_right)

lemma match_has_term_sound: "match_has_term lower term m \<Longrightarrow> matches_term lower term m"
  by (auto simp: match_has_term_def matches_term_def js_includes_sublist
      split: option.splits)

lemma match_has_term_iff:
  "lower [] = [] \<Longrightarrow> match_has_term lower term = matches_term lower term"
  by (rule ext)
     (auto simp: match_has_term_def matches_term_def js_includes_sublist
      split: option.splits)

text \<open>
  Claim C10. Whatever the lowering of the runtime is: for a search term that is empty or
  whitespace-only, \<open>searchInMatches\<close> returns the list it was given; for any other term
  it returns a subsequence of the input, whose elements are elements of the input as they
  were, and every one of them matches the lowercased and trimmed term (in the student's
  name, student id or class in lower case, or in the identity number as it is). When the
  lowering keeps the empty string empty, as \<open>toLowerCase\<close> does, the result is the list of
  all elements of the input that match.
\<close>

theorem searchInMatches_spec:
  "(whitespace_only s \<longrightarrow> searchInMatches lower ms s = ms) \<and>
   (\<not> whitespace_only s \<longrightarrow>
      subseq (searchInMatches lower ms s) ms \<and>
      (\<forall>m \<in> set (searchInMatches lower ms s).
         m \<in> set ms \<and> matches_term lower (trim (lower s)) m) \<and>
      (lower [] = [] \<longrightarrow>
         searchInMatches lower ms s = filter (matches_term lower (trim (lower s))) ms))"
proof (intro conjI impI)
  assume "whitespace_only s"
  then show "searchInMatches lower ms s = ms"
    by (simp add: searchInMatches_def trim_empty_iff)
next
  assume ne: "\<not> whitespace_only s"
  then have eq: "searchInMatches lower ms s = filter (match_has_term lower (trim (lower s))) ms"
    by (simp add: searchInMatches_def trim_empty_iff Let_def)
  show "subseq (searchInMatches lower ms s) ms"
    by (simp add: eq)
  show "\<forall>m \<in> set (searchInMatches lower ms s).
          m \<in> set ms \<and> matches_term lower (trim (lower s)) m"
    by (simp add: eq match_has_term_sound)
  show "searchInMatches lower ms s = filter (matches_term lower (trim (lower s))) ms"
    if "lower [] = []"
    by (simp add: eq match_has_term_iff [of lower, OF that])
qed

lemma search_terms:
  "whitespace_only (js ''  '')" "\<not> whitespace_only (js '' BO '')"
  "\<not> whitespace_only [0xFF41, 0x73ED]"
  "trim (lower_latin (js '' BO '')) = js ''bo''"
  "trim (lower_latin [0xFF41, 0x73ED]) = [0xFF41, 0x73ED]"
  "lower_latin [] = []"
  by (simp_all add: whitespace_only_def js_def isWhiteSpace_def trim_def lower_latin_def
      lower_latin_unit_def)

lemma search_matches:
  "\<not> matches_term lower_latin (js ''bo'') example_result"
  "matches_term lower_latin (js ''bo'') other_result"
  "\<not> matches_term lower_latin (js ''bo'') fullwidth_result"
  "\<not> matches_term lower_latin [0xFF41, 0x73ED] example_result"
  "\<not> matches_term lower_latin [0xFF41, 0x73ED] other_result"
  "matches_term lower_latin [0xFF41, 0x73ED] fullwidth_result"
  by (simp_all add: matches_term_def example_result_def other_result_def fullwidth_result_def
      example_student_def other_student_def fullwidth_student_def js_def lower_latin_def
      lower_latin_unit_def sublist_Cons_right)

theorem searchInMatches_spec_witness:
  "lower_latin [] = [] \<and>
   whitespace_only (js ''  '') \<and>
   searchInMatches lower_latin search_examples (js ''  '') = search_examples \<and>
   \<not> whitespace_only (js '' BO '') \<and>
   searchInMatches lower_latin search_examples (js '' BO '') = [other_result] \<and>
   \<not> whitespace_only [0xFF41, 0x73ED] \<and>
   searchInMatches lower_latin search_examples [0xFF41, 0x73ED] = [fullwidth_result] \<and>
   subseq [fullwidth_result] search_examples"
proof -
  note blank = searchInMatches_spec
    [where lower = lower_latin and s = "js ''  ''" and ms = search_examples]
  note latin = searchInMatches_spec
    [where lower = lower_latin and s = "js '' BO ''" and ms = search_examples]
  note wide = searchInMatches_spec
    [where lower = lower_latin and s = "[0xFF41, 0x73ED]" and ms = search_examples]
  have f1: "filter (matches_term lower_latin (js ''bo'')) search_examples = [other_result]"
    by (simp add: search_examples_def search_matches)
  have f2: "filter (matches_term lower_latin [0xFF41, 0x73ED]) search_examples
              = [fullwidth_result]"
    by (simp add: search_examples_def search_matches)
  from blank search_terms(1)
  have a: "searchInMatches lower_latin search_examples (js ''  '') = search_examples"
    by blast
  from latin search_terms(2) search_terms(6)
  have "searchInMatches lower_latin search_examples (js '' BO '') =
          filter (matches_term lower_latin (trim (lower_latin (js '' BO '')))) search_examples"
    by blast
  then have b: "searchInMatches lower_latin search_examples (js '' BO '') = [other_result]"
    by (simp only: search_terms(4) f1)
  from wide search_terms(3) search_terms(6)
  have "searchInMatches lower_latin search_examples [0xFF41, 0x73ED] =
          filter (matches_term lower_latin (trim (lower_latin [0xFF41, 0x73ED]))) search_examples"
    and c: "subseq (searchInMatches lower_latin search_examples [0xFF41, 0x73ED]) search_examples"
    by blast+
  then have d: "searchInMatches lower_latin search_examples [0xFF41, 0x73ED]
                  = [fullwidth_result]"
    by (simp only: search_terms(5) f2)
  from c have e: "subseq [fullwidth_result] search_examples"
    by (simp only: d)
  from search_terms(6) search_terms(1) a search_terms(2) b search_terms(3) d e
  show ?thesis by blast
qed


section \<open>The combined search\<close>

lemma or_string_given: "e \<noteq> [] \<Longrightarrow> or_string (Some e) d = e"
  by (simp add: or_string_def)

lemma or_string_missing: "or_string None d = d" "or_string (Some []) d = d"
  by (simp_all add: or_string_def)

lemma executeStudentSearch_resolved:
  assumes "find_students_by_difficulty backend sp dp dt = Resolved m"
    and "get_students_match_statistics backend sp dp dt = Resolved s"
  shows "executeStudentSearch backend sp dp dt =
     Inr (if \<not> CommandResult.success m then
        \<lparr>matches = [], statistics = zero_statistics, success = False,
         SearchResult.error = Some (or_string (CommandResult.error m) msg_find_failed)\<rparr>
      else if \<not> CommandResult.success s then
        \<lparr>matches = or_object (data m) [], statistics = zero_statistics, success = False,
         SearchResult.error = Some (or_string (CommandResult.error s) msg_statistics_failed)\<rparr>
      else
        \<lparr>matches = or_object (data m) [], statistics = or_object (data s) zero_statistics,
         success = True, SearchResult.error = None\<rparr>)"
  using assms
  by (simp add: executeStudentSearch_def findStudentsByDifficulty_def
      getStudentsMatchStatistics_def promise_all_def)

lemma executeStudentSearch_rejected:
  assumes "(\<exists>v. find_students_by_difficulty backend sp dp dt = Rejected v) \<or>
           (\<exists>v. get_students_match_statistics backend sp dp dt = Rejected v)"
    and "find_students_by_difficulty backend sp dp dt \<noteq> Rejected Unrenderable"
    and "get_students_match_statistics backend sp dp dt \<noteq> Rejected Unrenderable"
  shows "\<exists>text. (find_students_by_difficulty backend sp dp dt = Rejected (Renders text) \<or>
               get_students_match_statistics backend sp dp dt = Rejected (Renders text)) \<and>
     executeStudentSearch backend sp dp dt =
       Inr \<lparr>matches = [], statistics = zero_statistics, success = False,
            SearchResult.error = Some (msg_search_error_prefix @ text)\<rparr>"
proof -
  have renders: "\<exists>text. v = Renders text" if "v \<noteq> Unrenderable" for v
    using that by (cases v) simp_all
  show ?thesis
  proof (cases "find_students_by_difficulty backend sp dp dt")
    case (Resolved m)
    with assms(1) obtain v where st: "get_students_match_statistics backend sp dp dt = Rejected v"
      by auto
    with assms(3) renders [of v] obtain rendered where "v = Renders rendered" by auto
    with Resolved st show ?thesis
      by (simp add: executeStudentSearch_def findStudentsByDifficulty_def
          getStudentsMatchStatistics_def promise_all_def)
  next
    case (Rejected v)
    with assms(2) renders [of v] obtain rendered where v: "v = Renders rendered" by auto
    show ?thesis
    proof (cases "get_students_match_statistics backend sp dp dt")
      case (Resolved s)
      with Rejected v show ?thesis
        by (simp add: executeStudentSearch_def findStudentsByDifficulty_def
            getStudentsMatchStatistics_def promise_all_def)
    next
      case st: (Rejected w)
      with assms(3) renders [of w] obtain rendered' where w: "w = Renders rendered'" by auto
      from Rejected st v w show ?thesis
        by (cases "statistics_rejected_first backend")
           (simp_all add: executeStudentSearch_def findStudentsByDifficulty_def
            getStudentsMatchStatistics_def promise_all_def)
    qed
  qed
qed

text \<open>
  Claim C2, as amended. \<open>executeStudentSearch\<close> makes the match call and the statistics
  call with the same arguments and waits for both. When both calls are answered, it
  returns a result that succeeds exactly when both answers do. If the match answer
  reports a failure, the result has no matches, zeroed statistics (the data of the
  statistics call is not passed on) and the match answer's error message, or a fixed
  message when that is missing or empty. If the match answer reports success, the
  matches are its data (none when it has no data); if the statistics answer then reports
  a failure, the statistics are zeroed and the error message is that of the statistics
  answer, or a fixed message when that is missing or empty; if it reports success too,
  there is no error message and the statistics are its data. When a call is rejected and
  every rejected value has a text, it returns a failure with no matches and zeroed
  statistics, whatever the other call answered, whose message is a fixed prefix followed
  by the text of a rejected value.
\<close>

theorem executeStudentSearch_combined:
  "(\<forall>m s. find_students_by_difficulty backend sp dp dt = Resolved m \<and>
          get_students_match_statistics backend sp dp dt = Resolved s \<longrightarrow>
      (\<exists>r. executeStudentSearch backend sp dp dt = Inr r \<and>
         SearchResult.success r = (CommandResult.success m \<and> CommandResult.success s) \<and>
         (\<not> CommandResult.success m \<longrightarrow>
            matches r = [] \<and> statistics r = zero_statistics \<and>
            (\<forall>e. CommandResult.error m = Some e \<and> e \<noteq> [] \<longrightarrow> SearchResult.error r = Some e) \<and>
            (CommandResult.error m = None \<or> CommandResult.error m = Some [] \<longrightarrow>
               SearchResult.error r = Some msg_find_failed)) \<and>
         (CommandResult.success m \<longrightarrow>
            (\<forall>d. data m = Some d \<longrightarrow> matches r = d) \<and>
            (data m = None \<longrightarrow> matches r = [])) \<and>
         (CommandResult.success m \<and> \<not> CommandResult.success s \<longrightarrow>
            statistics r = zero_statistics \<and>
            (\<forall>e. CommandResult.error s = Some e \<and> e \<noteq> [] \<longrightarrow> SearchResult.error r = Some e) \<and>
            (CommandResult.error s = None \<or> CommandResult.error s = Some [] \<longrightarrow>
               SearchResult.error r = Some msg_statistics_failed)) \<and>
         (CommandResult.success m \<and> CommandResult.success s \<longrightarrow>
            SearchResult.error r = None \<and>
            (\<forall>d. data s = Some d \<longrightarrow> statistics r = d) \<and>
            (data s = None \<longrightarrow> statistics r = zero_statistics)))) \<and>
   (((\<exists>v. find_students_by_difficulty backend sp dp dt = Rejected v) \<or>
     (\<exists>v. get_students_match_statistics backend sp dp dt = Rejected v)) \<and>
    find_students_by_difficulty backend sp dp dt \<noteq> Rejected Unrenderable \<and>
    get_students_match_statistics backend sp dp dt \<noteq> Rejected Unrenderable \<longrightarrow>
      (\<exists>text. (find_students_by_difficulty backend sp dp dt = Rejected (Renders text) \<or>
               get_students_match_statistics backend sp dp dt = Rejected (Renders text)) \<and>
            executeStudentSearch backend sp dp dt =
              Inr \<lparr>matches = [], statistics = zero_statistics, success = False,
                   SearchResult.error = Some (msg_search_error_prefix @ text)\<rparr>))"
proof (intro conjI allI impI)
  assume "((\<exists>v. find_students_by_difficulty backend sp dp dt = Rejected v) \<or>
     (\<exists>v. get_students_match_statistics backend sp dp dt = Rejected v)) \<and>
    find_students_by_difficulty backend sp dp dt \<noteq> Rejected Unrenderable \<and>
    get_students_match_statistics backend sp dp dt \<noteq> Rejected Unrenderable"
  then show "\<exists>text. (find_students_by_difficulty backend sp dp dt = Rejected (Renders text) \<or>
               get_students_match_statistics backend sp dp dt = Rejected (Renders text)) \<and>
            executeStudentSearch backend sp dp dt =
              Inr \<lparr>matches = [], statistics = zero_statistics, success = False,
                   SearchResult.error = Some (msg_search_error_prefix @ text)\<rparr>"
    by (intro executeStudentSearch_rejected) simp_all
next
  fix m s
  assume "find_students_by_difficulty backend sp dp dt = Resolved m \<and>
          get_students_match_statistics backend sp dp dt = Resolved s"
  then have r: "executeStudentSearch backend sp dp dt =
     Inr (if \<not> CommandResult.success m then
        \<lparr>matches = [], statistics = zero_statistics, success = False,
         SearchResult.error = Some (or_string (CommandResult.error m) msg_find_failed)\<rparr>
      else if \<not> CommandResult.success s then
        \<lparr>matches = or_object (data m) [], statistics = zero_statistics, success = False,
         SearchResult.error = Some (or_string (CommandResult.error s) msg_statistics_failed)\<rparr>
      else
        \<lparr>matches = or_object (data m) [], statistics = or_object (data s) zero_statistics,
         success = True, SearchResult.error = None\<rparr>)"
    by (intro executeStudentSearch_resolved) simp_all
  show "\<exists>r. executeStudentSearch backend sp dp dt = Inr r \<and>
         SearchResult.success r = (CommandResult.success m \<and> CommandResult.success s) \<and>
         (\<not> CommandResult.success m \<longrightarrow>
            matches r = [] \<and> statistics r = zero_statistics \<and>
            (\<forall>e. CommandResult.error m = Some e \<and> e \<noteq> [] \<longrightarrow> SearchResult.error r = Some e) \<and>
            (CommandResult.error m = None \<or> CommandResult.error m = Some [] \<longrightarrow>
               SearchResult.error r = Some msg_find_failed)) \<and>
         (CommandResult.success m \<longrightarrow>
            (\<forall>d. data m = Some d \<longrightarrow> matches r = d) \<and>
            (data m = None \<longrightarrow> matches r = [])) \<and>
         (CommandResult.success m \<and> \<not> CommandResult.success s \<longrightarrow>
            statistics r = zero_statistics \<and>
            (\<forall>e. CommandResult.error s = Some e \<and> e \<noteq> [] \<longrightarrow> SearchResult.error r = Some e) \<and>
            (CommandResult.error s = None \<or> CommandResult.error s = Some [] \<longrightarrow>
               SearchResult.error r = Some msg_statistics_failed)) \<and>
         (CommandResult.success m \<and> CommandResult.success s \<longrightarrow>
            SearchResult.error r = None \<and>
            (\<forall>d. data s = Some d \<longrightarrow> statistics r = d) \<and>
            (data s = None \<longrightarrow> statistics r = zero_statistics))"
    unfolding r
    by (rule exI, rule conjI, rule refl)
       (auto simp add: or_string_given or_string_missing or_object_def)
qed


lemma failing_find_backend_calls:
  "find_students_by_difficulty failing_find_backend sp dp dt =
     Resolved \<lparr>CommandResult.success = False, data = None,
               CommandResult.error = Some (js ''unreadable'')\<rparr>"
  "get_students_match_statistics failing_find_backend sp dp dt =
     Resolved \<lparr>CommandResult.success = True, data = Some example_statistics,
               CommandResult.error = None\<rparr>"
  by (simp_all add: failing_find_backend_def)

lemma failing_statistics_backend_calls:
  "find_students_by_difficulty failing_statistics_backend sp dp dt =
     Resolved \<lparr>CommandResult.success = True, data = Some [example_result],
               CommandResult.error = None\<rparr>"
  "get_students_match_statistics failing_statistics_backend sp dp dt =
     Resolved \<lparr>CommandResult.success = False, data = None, CommandResult.error = None\<rparr>"
  by (simp_all add: failing_statistics_backend_def)

lemma rejecting_backend_calls:
  "find_students_by_difficulty rejecting_backend sp dp dt =
     Resolved \<lparr>CommandResult.success = True, data = Some [example_result],
               CommandResult.error = None\<rparr>"
  "get_students_match_statistics rejecting_backend sp dp dt = Rejected (Renders (js ''panic''))"
  by (simp_all add: rejecting_backend_def)

lemma unrenderable_backend_calls:
  "find_students_by_difficulty unrenderable_backend sp dp dt =
     Resolved \<lparr>CommandResult.success = True, data = Some [example_result],
               CommandResult.error = None\<rparr>"
  "get_students_match_statistics unrenderable_backend sp dp dt = Rejected Unrenderable"
  by (simp_all add: unrenderable_backend_def)

theorem executeStudentSearch_combined_witness:
  "(\<exists>r. executeStudentSearch failing_statistics_backend
           (js ''s.xlsx'') (js ''d.xlsx'') (js ''t'') = Inr r \<and>
        \<not> SearchResult.success r \<and> matches r = [example_result] \<and>
        statistics r = zero_statistics \<and>
        SearchResult.error r = Some msg_statistics_failed) \<and>
   (\<exists>r. executeStudentSearch failing_find_backend
           (js ''s.xlsx'') (js ''d.xlsx'') (js ''t'') = Inr r \<and>
        \<not> SearchResult.success r \<and> matches r = [] \<and> statistics r = zero_statistics \<and>
        SearchResult.error r = Some (js ''unreadable'')) \<and>
   executeStudentSearch rejecting_backend (js ''s.xlsx'') (js ''d.xlsx'') (js ''t'') =
     Inr \<lparr>matches = [], statistics = zero_statistics, success = False,
          SearchResult.error = Some (msg_search_error_prefix @ js ''panic'')\<rparr>"
proof -
  note st = executeStudentSearch_combined
    [of failing_statistics_backend "js ''s.xlsx''" "js ''d.xlsx''" "js ''t''"]
  note fi = executeStudentSearch_combined
    [of failing_find_backend "js ''s.xlsx''" "js ''d.xlsx''" "js ''t''"]
  note re = executeStudentSearch_combined
    [of rejecting_backend "js ''s.xlsx''" "js ''d.xlsx''" "js ''t''"]
  have ne: "js ''unreadable'' \<noteq> []" by (simp add: js_def)
  from st have a:
    "\<exists>r. executeStudentSearch failing_statistics_backend
           (js ''s.xlsx'') (js ''d.xlsx'') (js ''t'') = Inr r \<and>
        \<not> SearchResult.success r \<and> matches r = [example_result] \<and>
        statistics r = zero_statistics \<and>
        SearchResult.error r = Some msg_statistics_failed"
    by (simp add: failing_statistics_backend_calls)
  from fi ne have b:
    "\<exists>r. executeStudentSearch failing_find_backend
           (js ''s.xlsx'') (js ''d.xlsx'') (js ''t'') = Inr r \<and>
        \<not> SearchResult.success r \<and> matches r = [] \<and> statistics r = zero_statistics \<and>
        SearchResult.error r = Some (js ''unreadable'')"
    by (simp add: failing_find_backend_calls)
  from re have c:
    "executeStudentSearch rejecting_backend (js ''s.xlsx'') (js ''d.xlsx'') (js ''t'') =
       Inr \<lparr>matches = [], statistics = zero_statistics, success = False,
            SearchResult.error = Some (msg_search_error_prefix @ js ''panic'')\<rparr>"
    by (simp add: rejecting_backend_calls)
  from a b c show ?thesis by blast
qed

text \<open>
  Claim C2 as stated fails: when the match call reports a failure and the statistics
  call succeeds, the data of the statistics call is not in the result, whose statistics
  are zeroed.
\<close>

theorem executeStudentSearch_statistics_dropped:
  "find_students_by_difficulty failing_find_backend (js ''s.xlsx'') (js ''d.xlsx'') (js ''t'') =
     Resolved \<lparr>CommandResult.success = False, data = None,
               CommandResult.error = Some (js ''unreadable'')\<rparr> \<and>
   get_students_match_statistics failing_find_backend (js ''s.xlsx'') (js ''d.xlsx'') (js ''t'') =
     Resolved \<lparr>CommandResult.success = True, data = Some example_statistics,
               CommandResult.error = None\<rparr> \<and>
   executeStudentSearch failing_find_backend (js ''s.xlsx'') (js ''d.xlsx'') (js ''t'') =
     Inr \<lparr>matches = [], statistics = zero_statistics, success = False,
          SearchResult.error = Some (js ''unreadable'')\<rparr> \<and>
   zero_statistics \<noteq> example_statistics"
proof -
  have r: "executeStudentSearch failing_find_backend (js ''s.xlsx'') (js ''d.xlsx'') (js ''t'') =
     Inr \<lparr>matches = [], statistics = zero_statistics, success = False,
          SearchResult.error = Some (js ''unreadable'')\<rparr>"
    by (simp add: executeStudentSearch_def findStudentsByDifficulty_def
        getStudentsMatchStatistics_def promise_all_def failing_find_backend_def
        or_string_def js_def)
  have "zero_statistics \<noteq> example_statistics"
    by (simp add: zero_statistics_def example_statistics_def)
  with r show ?thesis by (simp add: failing_find_backend_calls)
qed

text \<open>
  When \<open>executeStudentSearch\<close> raises, and what holds of every result it returns.
\<close>

lemma messages_not_empty:
  "msg_find_failed \<noteq> []" "msg_statistics_failed \<noteq> []" "msg_search_error_prefix \<noteq> []"
  by (simp_all add: msg_find_failed_def msg_statistics_failed_def msg_search_error_prefix_def)

lemma or_string_not_empty: "d \<noteq> [] \<Longrightarrow> or_string x d \<noteq> []"
  by (simp add: or_string_def split: option.splits)

lemma executeStudentSearch_raises_iff:
  "(\<exists>e. executeStudentSearch backend sp dp dt = Inl e) =
     (promise_all (statistics_rejected_first backend)
        (find_students_by_difficulty backend sp dp dt)
        (get_students_match_statistics backend sp dp dt) = Rejected Unrenderable)"
  by (auto simp add: executeStudentSearch_def findStudentsByDifficulty_def
      getStudentsMatchStatistics_def split: outcome.splits rejection.splits prod.splits)

lemma executeStudentSearch_tagged:
  assumes "executeStudentSearch backend sp dp dt = Inr r"
  shows "(\<not> SearchResult.success r) = (\<exists>msg. SearchResult.error r = Some msg \<and> msg \<noteq> [])"
    and "SearchResult.success r = (SearchResult.error r = None)"
  using assms
  by (auto simp add: executeStudentSearch_def findStudentsByDifficulty_def
      getStudentsMatchStatistics_def messages_not_empty or_string_not_empty
      split: outcome.splits rejection.splits prod.splits if_splits)

text \<open>
  Claim C7 fails on the code at a rejected value that has no text: the match call is
  answered, the statistics call is rejected with such a value, and the \<open>catch\<close> block
  raises a \<open>TypeError\<close> while it builds its message, so \<open>executeStudentSearch\<close> raises to
  its caller and returns no result.
\<close>

theorem executeStudentSearch_raises:
  "find_students_by_difficulty unrenderable_backend (js ''s.xlsx'') (js ''d.xlsx'') (js ''t'') =
     Resolved \<lparr>CommandResult.success = True, data = Some [example_result],
               CommandResult.error = None\<rparr> \<and>
   get_students_match_statistics unrenderable_backend (js ''s.xlsx'') (js ''d.xlsx'') (js ''t'') =
     Rejected Unrenderable \<and>
   executeStudentSearch unrenderable_backend (js ''s.xlsx'') (js ''d.xlsx'') (js ''t'') =
     Inl TypeError"
  by (simp add: unrenderable_backend_calls executeStudentSearch_def
      findStudentsByDifficulty_def getStudentsMatchStatistics_def promise_all_def)


section \<open>The matching engine: soundness of the matches\<close>

lemma student_lookup_foldl_Some:
  "foldl (\<lambda>lookup s. lookup(Student.id_number s \<mapsto> s)) m students k = Some s \<Longrightarrow>
     (s \<in> set students \<and> Student.id_number s = k) \<or> m k = Some s"
proof (induction students arbitrary: m)
  case Nil
  then show ?case by simp
next
  case (Cons x xs)
  from Cons.prems
  have "foldl (\<lambda>lookup s. lookup(Student.id_number s \<mapsto> s))
          (m(Student.id_number x \<mapsto> x)) xs k = Some s"
    by (simp only: foldl_Cons)
  from Cons.IH [OF this]
  show ?case by (auto split: if_splits)
qed

lemma student_lookup_foldl_None:
  "(foldl (\<lambda>lookup s. lookup(Student.id_number s \<mapsto> s)) m students k = None) =
     (m k = None \<and> k \<notin> Student.id_number ` set students)"
  by (induction students arbitrary: m) auto

lemma student_lookup_Some:
  "student_lookup students k = Some s \<Longrightarrow> s \<in> set students \<and> Student.id_number s = k"
  using student_lookup_foldl_Some [of Map.empty students k s]
  by (simp add: student_lookup_def)

lemma student_lookup_None:
  "(student_lookup students k = None) = (k \<notin> Student.id_number ` set students)"
  by (simp add: student_lookup_def student_lookup_foldl_None)

lemma in_set_map_filter:
  "(y \<in> set (List.map_filter f xs)) = (\<exists>x. x \<in> set xs \<and> f x = Some y)"
  by (induction xs) (auto split: option.splits)

lemma find_matches_set:
  "m \<in> set (find_matches students difficulty_records category) =
     (\<exists>d s. d \<in> set difficulty_records \<and>
            difficulty_type_value (difficulty_type d) = category \<and>
            student_lookup students (DifficultPerson.id_number d) = Some s \<and>
            m = \<lparr>student = s, difficult_info = d\<rparr>)"
  by (auto simp add: find_matches_def Let_def in_set_map_filter split: option.splits)

lemma find_matches_records:
  "map difficult_info (find_matches students difficulty_records category) =
     filter (\<lambda>d. difficulty_type_value (difficulty_type d) = category \<and>
                 DifficultPerson.id_number d \<in> Student.id_number ` set students)
       difficulty_records"
proof (induction difficulty_records)
  case Nil
  show ?case by (simp add: find_matches_def)
next
  case (Cons d ds)
  then show ?case
    by (cases "student_lookup students (DifficultPerson.id_number d)")
       (auto simp add: find_matches_def Let_def student_lookup_None [symmetric])
qed

text \<open>
  Claim C4. Every record that \<open>find_matches\<close> returns has the requested category as its
  difficulty type, pairs a difficulty record of the difficulty table with a student of
  the student table, and the two have the same identity number, code unit for code
  unit. The difficulty records of the result are exactly the records of the category
  whose identity number some student has, in the order of the table: a record with no
  student is left out, and the command still answers with success.
\<close>

theorem find_matches_sound:
  "(\<forall>m \<in> set (find_matches students difficulty_records category).
      difficulty_type_value (type_of m) = category \<and>
      difficult_info m \<in> set difficulty_records \<and>
      student m \<in> set students \<and>
      Student.id_number (student m) = DifficultPerson.id_number (difficult_info m)) \<and>
   map difficult_info (find_matches students difficulty_records category) =
     filter (\<lambda>d. difficulty_type_value (difficulty_type d) = category \<and>
                 DifficultPerson.id_number d \<in> Student.id_number ` set students)
       difficulty_records \<and>
   find_matches_command (Inr students) (Inr difficulty_records) category =
     \<lparr>CommandResult.success = True,
      data = Some (find_matches students difficulty_records category),
      CommandResult.error = None\<rparr>"
proof (intro conjI ballI)
  fix m
  assume "m \<in> set (find_matches students difficulty_records category)"
  then obtain d s where d: "d \<in> set difficulty_records"
    and ty: "difficulty_type_value (difficulty_type d) = category"
    and look: "student_lookup students (DifficultPerson.id_number d) = Some s"
    and m: "m = \<lparr>student = s, difficult_info = d\<rparr>"
    unfolding find_matches_set by blast
  from student_lookup_Some [OF look]
  have s: "s \<in> set students" "Student.id_number s = DifficultPerson.id_number d" by simp_all
  show "difficulty_type_value (type_of m) = category" by (simp add: m ty)
  show "difficult_info m \<in> set difficulty_records" by (simp add: m d)
  show "student m \<in> set students" by (simp add: m s)
  show "Student.id_number (student m) = DifficultPerson.id_number (difficult_info m)"
    by (simp add: m s)
next
  show "map difficult_info (find_matches students difficulty_records category) =
     filter (\<lambda>d. difficulty_type_value (difficulty_type d) = category \<and>
                 DifficultPerson.id_number d \<in> Student.id_number ` set students)
       difficulty_records"
    by (rule find_matches_records)
next
  show "find_matches_command (Inr students) (Inr difficulty_records) category =
     \<lparr>CommandResult.success = True,
      data = Some (find_matches students difficulty_records category),
      CommandResult.error = None\<rparr>"
    by (simp add: find_matches_command_def)
qed

lemma example_find_matches:
  "find_matches [example_student] [other_record, example_record]
     (difficulty_type_value RuralSubsistence) = [example_match]"
  by (simp add: find_matches_def Let_def student_lookup_def
      example_student_def example_record_def other_record_def example_match_def js_def)

theorem find_matches_sound_witness:
  "find_matches [example_student] [other_record, example_record]
     (difficulty_type_value RuralSubsistence) = [example_match] \<and>
   difficulty_type_value (type_of example_match) = difficulty_type_value RuralSubsistence \<and>
   difficult_info example_match \<in> set [other_record, example_record] \<and>
   student example_match \<in> set [example_student] \<and>
   Student.id_number (student example_match)
     = DifficultPerson.id_number (difficult_info example_match)"
proof -
  note spec = find_matches_sound [of "[example_student]" "[other_record, example_record]"
      "difficulty_type_value RuralSubsistence"]
  have "example_match \<in> set (find_matches [example_student] [other_record, example_record]
          (difficulty_type_value RuralSubsistence))"
    by (simp only: example_find_matches list.set insertI1)
  with spec example_find_matches show ?thesis by blast
qed

lemma difficulty_type_value_known: "is_difficulty_type (difficulty_type_value t)"
  by (cases t) (simp_all add: is_difficulty_type_def difficulty_types_def)

text \<open>
  Claim C5. For a category that is none of the ten difficulty types, \<open>find_matches\<close>
  returns the empty list whatever the two tables hold, and the command answers with
  success and an empty list of matches, not with an error.
\<close>

theorem find_matches_unknown_category:
  "\<not> is_difficulty_type category \<Longrightarrow>
     find_matches students difficulty_records category = [] \<and>
     find_matches_command (Inr students) (Inr difficulty_records) category =
       \<lparr>CommandResult.success = True, data = Some [], CommandResult.error = None\<rparr>"
proof -
  assume unknown: "\<not> is_difficulty_type category"
  have "difficulty_type_value (difficulty_type d) \<noteq> category" for d :: DifficultPerson
    using unknown difficulty_type_value_known [of "difficulty_type d"] by auto
  then have "find_matches students difficulty_records category = []"
    by (simp add: find_matches_def Let_def)
  then show ?thesis by (simp add: find_matches_command_def)
qed

theorem find_matches_unknown_category_witness:
  "\<not> is_difficulty_type (js ''unknown'') \<and>
   find_matches [example_student] [example_record] (js ''unknown'') = [] \<and>
   find_matches_command (Inr [example_student]) (Inr [example_record]) (js ''unknown'') =
     \<lparr>CommandResult.success = True, data = Some [], CommandResult.error = None\<rparr>"
proof -
  have unknown: "\<not> is_difficulty_type (js ''unknown'')"
    by (simp add: is_difficulty_type_def difficulty_types_def js_def)
  from find_matches_unknown_category [OF unknown, of "[example_student]" "[example_record]"]
    unknown
  show ?thesis by simp
qed

end
